theory Spec2Isabelle
  imports Main
begin

section \<open>Exceptions\<close>

text \<open>
  The exception classes of \<^verbatim>\<open>ios-extract.py\<close> and the library exceptions its calls can
  raise. A raising function returns \<open>Inl e\<close>. \<open>InvalidFileException\<close> is what
  \<^verbatim>\<open>plistlib.load\<close> raises on a file that is not a property list, \<open>SqliteError\<close> what
  \<^verbatim>\<open>sqlite3\<close> raises on a file that is not the database asked for,
  \<open>NumberParseException\<close> the exception of the \<^verbatim>\<open>phonenumbers\<close> library; the others
  are Python's own.
\<close>

datatype error =
    InvalidBackupException
  | ApplicationNotFoundException
  | FileNotFoundException
  | ContactsNotDefinedException
  | KeyError
  | TypeError
  | InvalidFileException
  | IsADirectoryError
  | OSFileNotFoundError
  | OSFileExistsError
  | NotADirectoryError
  | SqliteError
  | NumberParseException

section \<open>Strings and paths\<close>

text \<open>
  A \<^typ>\<open>char\<close> stands for one character of a Python string, with its code point; the
  strings of the model are the Python strings of characters below U+0100.
\<close>

definition sep :: char where
  "sep = CHR ''/''"

definition startswith_sep :: "string \<Rightarrow> bool" where
  "startswith_sep s = (case s of [] \<Rightarrow> False | c # _ \<Rightarrow> c = sep)"

definition endswith_sep :: "string \<Rightarrow> bool" where
  "endswith_sep s = (s \<noteq> [] \<and> last s = sep)"

text \<open>
  One round of the loop of \<^verbatim>\<open>posixpath.join\<close>: an absolute component replaces what was
  joined so far; a separator is inserted unless the path is empty or ends with one.
\<close>

definition join_step :: "string \<Rightarrow> string \<Rightarrow> string" where
  "join_step path b =
     (if startswith_sep b then b
      else if path = [] \<or> endswith_sep path then path @ b
      else path @ [sep] @ b)"

definition os_path_join :: "string \<Rightarrow> string list \<Rightarrow> string" where
  "os_path_join a ps = foldl join_step a ps"

text \<open>\<^verbatim>\<open>posixpath.dirname\<close> and \<^verbatim>\<open>posixpath.basename\<close>.\<close>

definition rstrip_sep :: "string \<Rightarrow> string" where
  "rstrip_sep s = rev (dropWhile (\<lambda>c. c = sep) (rev s))"

definition dirname :: "string \<Rightarrow> string" where
  "dirname p =
     (let head = rev (dropWhile (\<lambda>c. c \<noteq> sep) (rev p))
      in if head \<noteq> [] \<and> \<not> list_all (\<lambda>c. c = sep) head then rstrip_sep head else head)"

definition basename :: "string \<Rightarrow> string" where
  "basename p = rev (takeWhile (\<lambda>c. c \<noteq> sep) (rev p))"

text \<open>Python's \<^verbatim>\<open>str()\<close> of a non-negative and of any integer.\<close>

definition digit_char :: "nat \<Rightarrow> char" where
  "digit_char d = ''0123456789'' ! d"

fun str_nat :: "nat \<Rightarrow> string" where
  "str_nat n = (if n < 10 then [digit_char n] else str_nat (n div 10) @ [digit_char (n mod 10)])"

declare str_nat.simps [simp del]

definition str_int :: "int \<Rightarrow> string" where
  "str_int i = (if i < 0 then CHR ''-'' # str_nat (nat (- i)) else str_nat (nat i))"

text \<open>The f-string rendering of a value that may be \<^verbatim>\<open>None\<close>.\<close>

definition py_str :: "string option \<Rightarrow> string" where
  "py_str v = (case v of None \<Rightarrow> ''None'' | Some s \<Rightarrow> s)"

section \<open>The file system and the databases stored in it\<close>

text \<open>
  What the program reads from a file is decided by libraries outside the repository
  (\<^verbatim>\<open>plistlib\<close>, \<^verbatim>\<open>sqlite3\<close>); a file's content is therefore given as what those libraries
  make of it: a property list that \<^verbatim>\<open>plistlib.load\<close> parses to a dictionary, a manifest
  catalog with its \<^verbatim>\<open>Files\<close> table, a messaging database with its seven tables, an
  address book with its two tables, or bytes that neither library can read. The tables
  hold the columns the program selects; a column that may be \<^verbatim>\<open>NULL\<close> is an option.
  Only string-valued keys of the property list are kept.
\<close>

record files_row =
  fileID :: string
  domain :: string
  relativePath :: string

record chat_row =
  chat_rowid :: int
  chat_guid :: string

record handle_row =
  handle_rowid :: int
  handle_contact :: "string option"
  handle_country :: "string option"
  handle_service :: "string option"

record message_row =
  message_rowid :: int
  message_guid :: string
  message_date :: int
  message_handle_id :: int
  message_text :: "string option"
  message_reply_to_guid :: "string option"

record attachment_row =
  attachment_rowid :: int
  attachment_guid :: string
  attachment_date :: int
  attachment_filename :: "string option"
  attachment_uti :: "string option"
  attachment_mime_type :: "string option"
  attachment_transfer_name :: "string option"
  attachment_total_bytes :: int

record sms_db =
  chat_table :: "chat_row list"
  handle_table :: "handle_row list"
  chat_handle_join :: "(int \<times> int) list"
  message_table :: "message_row list"
  chat_message_join :: "(int \<times> int) list"
  attachment_table :: "attachment_row list"
  message_attachment_join :: "(int \<times> int) list"

record abperson_row =
  person_rowid :: int
  person_guid :: "string option"
  person_first :: "string option"
  person_last :: "string option"
  person_nickname :: "string option"
  person_organization :: "string option"

record addressbook_db =
  abperson_table :: "abperson_row list"
  abmultivalue_table :: "(int \<times> string option) list"

datatype content =
    Bytes string
  | PlistDoc "(string \<times> string) list"
  | ManifestDb "files_row list"
  | SmsDb sms_db
  | AddressBookDb addressbook_db

datatype node = File content | Dir

section \<open>Rows as the pipelines hold them\<close>

text \<open>
  \<^verbatim>\<open>simple_query\<close> turns every row into a dictionary, and the messaging pipeline adds
  keys to those dictionaries in place: \<^verbatim>\<open>uuid\<close> and \<^verbatim>\<open>name\<close> on a handle,
  \<^verbatim>\<open>sender_uuid\<close>, \<^verbatim>\<open>sender_name\<close> and \<^verbatim>\<open>attachments\<close> on a message, \<^verbatim>\<open>members\<close> and
  \<^verbatim>\<open>messages\<close> on a chat. A key that has not been added is \<open>None\<close>. The lists a chat
  holds are lists of references to the handle and message dictionaries, kept here as the
  row ids under which those dictionaries are stored.
\<close>

record handle =
  h_row :: handle_row
  h_identity :: "(string \<times> string) option"

record message =
  m_row :: message_row
  m_sender :: "(string \<times> string) option"
  m_attachments :: "attachment_row list option"

record chat =
  c_row :: chat_row
  c_members :: "int list option"
  c_messages :: "int list option"

text \<open>
  A person of the contacts pipeline: the selected columns (a \<^verbatim>\<open>NULL\<close> column is removed
  from the dictionary, so \<open>None\<close> is a missing key), the display name, and the
  \<^verbatim>\<open>contacts\<close> dictionary from contact kind to contact strings once it has been created.
\<close>

record person =
  p_row :: abperson_row
  p_display_name :: string
  p_contacts :: "(string \<times> string list) list option"

text \<open>What \<^verbatim>\<open>to_json\<close> writes: the chats with every reference followed.\<close>

record chat_out =
  out_row :: chat_row
  out_members :: "handle list option"
  out_messages :: "message list option"

datatype json_out =
    ChatsJson "chat_out list"
  | MessagesJson "message list"
  | PeopleJson "person list"

section \<open>The world the program runs in\<close>

text \<open>
  Paths are compared as written (no symbolic links, no normalisation). \<open>copied\<close> logs
  every completed \<^verbatim>\<open>shutil.copy2\<close> as (source, destination); \<open>outputs\<close> logs every
  \<^verbatim>\<open>to_json\<close> call as (file name, data); \<open>contacts_lookup\<close> is the global
  \<^verbatim>\<open>CONTACTS_LOOKUP\<close>, in insertion order.
\<close>

record world =
  fs :: "string \<Rightarrow> node option"
  copied :: "(string \<times> string) list"
  outputs :: "(string \<times> json_out) list"
  contacts_lookup :: "(string \<times> (string \<times> string)) list"

definition path_exists :: "world \<Rightarrow> string \<Rightarrow> bool" where
  "path_exists w p = (fs w p \<noteq> None)"

definition is_file_node :: "node option \<Rightarrow> bool" where
  "is_file_node n = (case n of Some (File _) \<Rightarrow> True | _ \<Rightarrow> False)"

text \<open>
  The directories \<^verbatim>\<open>os.makedirs\<close> walks through: every prefix of the path that ends
  before a separator, and the path itself.
\<close>

definition ancestors :: "string \<Rightarrow> string list" where
  "ancestors d =
     filter (\<lambda>a. a \<noteq> [])
       (map (\<lambda>i. rstrip_sep (take i d)) (filter (\<lambda>i. d ! i = sep) [0..<length d])) @ [d]"

definition mkdir_all :: "string list \<Rightarrow> (string \<Rightarrow> node option) \<Rightarrow> (string \<Rightarrow> node option)" where
  "mkdir_all ds f = foldl (\<lambda>g a. if g a = None then g(a \<mapsto> Dir) else g) f ds"

text \<open>
  \<^verbatim>\<open>os.makedirs(d, exist_ok=True)\<close>: creates the missing directories; raises when the
  path is empty, and when the path or one of the directories above it is a regular file.
\<close>

definition makedirs :: "string \<Rightarrow> world \<Rightarrow> (error + unit) \<times> world" where
  "makedirs d w =
     (if d = [] then (Inl OSFileNotFoundError, w)
      else if is_file_node (fs w d) then (Inl OSFileExistsError, w)
      else if list_ex (\<lambda>a. is_file_node (fs w a)) (ancestors d) then (Inl NotADirectoryError, w)
      else (Inr (), w\<lparr>fs := mkdir_all (ancestors d) (fs w)\<rparr>))"

text \<open>
  \<^verbatim>\<open>shutil.copy2(src, dst)\<close>: the source must be a regular file; a destination that is
  a directory receives the file under the source's base name; otherwise the directory of
  the destination must exist.
\<close>

definition copy2 :: "string \<Rightarrow> string \<Rightarrow> world \<Rightarrow> (error + unit) \<times> world" where
  "copy2 src dst w =
     (case fs w src of
        None \<Rightarrow> (Inl OSFileNotFoundError, w)
      | Some Dir \<Rightarrow> (Inl IsADirectoryError, w)
      | Some (File c) \<Rightarrow>
          (if fs w dst = Some Dir then
             (let real_dst = os_path_join dst [basename src]
              in if fs w real_dst = Some Dir then (Inl IsADirectoryError, w)
                 else (Inr (), w\<lparr>fs := (fs w)(real_dst \<mapsto> File c),
                                  copied := copied w @ [(src, real_dst)]\<rparr>))
           else if dirname dst \<noteq> [] \<and> fs w (dirname dst) = None then (Inl OSFileNotFoundError, w)
           else if is_file_node (fs w (dirname dst)) then (Inl NotADirectoryError, w)
           else (Inr (), w\<lparr>fs := (fs w)(dst \<mapsto> File c), copied := copied w @ [(src, dst)]\<rparr>)))"

section \<open>\<^verbatim>\<open>make_temporary_copy\<close>\<close>

text \<open>
  \<^verbatim>\<open>dst_path or src_path\<close> takes the source path when the destination is \<^verbatim>\<open>None\<close> or
  empty; the scratch path is the f-string \<^verbatim>\<open>/tmp/{id}/{dst_path}\<close>.
\<close>

definition tmp_path_of :: "string \<Rightarrow> string \<Rightarrow> string option \<Rightarrow> string" where
  "tmp_path_of ident src_path dst_path =
     (let dst = (case dst_path of None \<Rightarrow> src_path | Some d \<Rightarrow> if d = [] then src_path else d)
      in ''/tmp/'' @ ident @ ''/'' @ dst)"

definition make_temporary_copy ::
  "string \<Rightarrow> string \<Rightarrow> string option \<Rightarrow> world \<Rightarrow> (error + string) \<times> world" where
  "make_temporary_copy ident src_path dst_path w =
     (let tmp_path = tmp_path_of ident src_path dst_path
      in if path_exists w tmp_path then (Inr tmp_path, w)
         else (case makedirs (dirname tmp_path) w of
                 (Inl e, w1) \<Rightarrow> (Inl e, w1)
               | (Inr _, w1) \<Rightarrow>
                   (case copy2 src_path tmp_path w1 of
                      (Inl e, w2) \<Rightarrow> (Inl e, w2)
                    | (Inr _, w2) \<Rightarrow> (Inr tmp_path, w2))))"

section \<open>\<^verbatim>\<open>IOSBackup\<close> and \<^verbatim>\<open>IOSBackupFile\<close>\<close>

record ios_backup =
  b_path :: string
  b_info_plist :: "(string \<times> string) list"
  b_id :: "string option"
  b_manifest_temp_path :: string

record ios_backup_file =
  f_backup :: ios_backup
  f_domain :: string
  f_path :: string
  f_id :: string
  real_path :: string
  temp_path :: "string option"

text \<open>\<^verbatim>\<open>sqlite3.connect\<close> opens any path that is not a directory.\<close>

definition sqlite3_connect :: "string \<Rightarrow> world \<Rightarrow> error + string" where
  "sqlite3_connect p w = (if fs w p = Some Dir then Inl SqliteError else Inr p)"

text \<open>\<^verbatim>\<open>IOSBackup.__getitem__\<close>: a missing key gives \<^verbatim>\<open>None\<close>.\<close>

definition info_getitem :: "(string \<times> string) list \<Rightarrow> string \<Rightarrow> string option" where
  "info_getitem info key = map_of info key"

definition IOSBackup_init :: "string \<Rightarrow> world \<Rightarrow> (error + ios_backup) \<times> world" where
  "IOSBackup_init path w =
     (let info_path = os_path_join path [''Info.plist'']
      in if \<not> path_exists w info_path then (Inl InvalidBackupException, w)
         else (case fs w info_path of
                 None \<Rightarrow> (Inl InvalidBackupException, w)
               | Some Dir \<Rightarrow> (Inl IsADirectoryError, w)
               | Some (File (PlistDoc info)) \<Rightarrow>
                   (let ident = info_getitem info ''Unique Identifier''
                    in case make_temporary_copy (py_str ident)
                              (os_path_join path [''Manifest.db'']) (Some ''Manifest.db'') w of
                         (Inl e, w1) \<Rightarrow> (Inl e, w1)
                       | (Inr tmp, w1) \<Rightarrow>
                           (case sqlite3_connect tmp w1 of
                              Inl e \<Rightarrow> (Inl e, w1)
                            | Inr _ \<Rightarrow>
                                (Inr \<lparr>b_path = path, b_info_plist = info, b_id = ident,
                                      b_manifest_temp_path = tmp\<rparr>, w1)))
               | Some (File _) \<Rightarrow> (Inl InvalidFileException, w)))"

text \<open>
  \<^verbatim>\<open>IOSBackupFile.__init__\<close>: \<^verbatim>\<open>id\<close> defaults to \<^verbatim>\<open>None\<close>, which cannot be sliced.
\<close>

definition IOSBackupFile_init ::
  "ios_backup \<Rightarrow> string \<Rightarrow> string \<Rightarrow> string option \<Rightarrow> error + ios_backup_file" where
  "IOSBackupFile_init backup dmn path ident =
     (case ident of
        None \<Rightarrow> Inl TypeError
      | Some i \<Rightarrow>
          Inr \<lparr>f_backup = backup, f_domain = dmn, f_path = path, f_id = i,
               real_path = os_path_join (b_path backup) [take 2 i, i],
               temp_path = None\<rparr>)"

text \<open>The rows of the \<^verbatim>\<open>Files\<close> table, read through the backup's connection.\<close>

definition manifest_rows :: "ios_backup \<Rightarrow> world \<Rightarrow> error + files_row list" where
  "manifest_rows backup w =
     (case fs w (b_manifest_temp_path backup) of
        Some (File (ManifestDb rows)) \<Rightarrow> Inr rows
      | _ \<Rightarrow> Inl SqliteError)"

definition select_fileID :: "files_row list \<Rightarrow> string \<Rightarrow> string \<Rightarrow> files_row list" where
  "select_fileID rows dmn path = filter (\<lambda>r. domain r = dmn \<and> relativePath r = path) rows"

text \<open>\<^verbatim>\<open>IOSBackup.file\<close>.\<close>

definition IOSBackup_file ::
  "ios_backup \<Rightarrow> string \<Rightarrow> string \<Rightarrow> world \<Rightarrow> error + ios_backup_file" where
  "IOSBackup_file backup dmn path w =
     (case manifest_rows backup w of
        Inl e \<Rightarrow> Inl e
      | Inr rows \<Rightarrow>
          (let results = select_fileID rows dmn path
           in if length results \<noteq> 1 then Inl FileNotFoundException
              else IOSBackupFile_init backup dmn path (Some (fileID (hd results)))))"

text \<open>\<^verbatim>\<open>IOSBackupFile.open_db\<close>; the handle returned is the path of the local copy.\<close>

definition open_db :: "ios_backup_file \<Rightarrow> world \<Rightarrow> (error + string) \<times> world" where
  "open_db f w =
     (case make_temporary_copy (py_str (b_id (f_backup f)) @ ''/'' @ f_domain f)
             (real_path f) (Some (f_path f)) w of
        (Inl e, w1) \<Rightarrow> (Inl e, w1)
      | (Inr tmp, w1) \<Rightarrow>
          (case sqlite3_connect tmp w1 of Inl e \<Rightarrow> (Inl e, w1) | Inr db \<Rightarrow> (Inr db, w1)))"

section \<open>The scan loop\<close>

text \<open>
  The backup functions read the global \<^verbatim>\<open>backup\<close>; here each takes it as an argument.
  The dispatch catches \<^verbatim>\<open>ApplicationNotFoundException\<close> only, the scan loop
  \<^verbatim>\<open>InvalidBackupException\<close> only. The result of \<^verbatim>\<open>os.listdir\<close> is given.
\<close>

type_synonym pipeline = "ios_backup \<Rightarrow> world \<Rightarrow> (error + unit) \<times> world"

fun run_backup_functions :: "pipeline list \<Rightarrow> ios_backup \<Rightarrow> world \<Rightarrow> (error + unit) \<times> world" where
  "run_backup_functions [] backup w = (Inr (), w)"
| "run_backup_functions (f # rest) backup w =
     (case f backup w of
        (Inl e, w1) \<Rightarrow>
          (if e = ApplicationNotFoundException then run_backup_functions rest backup w1
           else (Inl e, w1))
      | (Inr _, w1) \<Rightarrow> run_backup_functions rest backup w1)"

fun scan_ids :: "pipeline list \<Rightarrow> string \<Rightarrow> string list \<Rightarrow> world \<Rightarrow> (error + unit) \<times> world" where
  "scan_ids fns backup_root [] w = (Inr (), w)"
| "scan_ids fns backup_root (backup_id # rest) w =
     (case IOSBackup_init (os_path_join backup_root [backup_id]) w of
        (Inl e, w1) \<Rightarrow>
          (if e = InvalidBackupException then scan_ids fns backup_root rest w1
           else (Inl e, w1))
      | (Inr backup, w1) \<Rightarrow>
          (case run_backup_functions fns backup w1 of
             (Inl e, w2) \<Rightarrow> (Inl e, w2)
           | (Inr _, w2) \<Rightarrow> scan_ids fns backup_root rest w2))"

definition backup_roots :: "string list" where
  "backup_roots = [''/Volumes/Backups/iPhone/Active/'']"

fun scan_roots ::
  "pipeline list \<Rightarrow> (string \<Rightarrow> string list) \<Rightarrow> string list \<Rightarrow> world \<Rightarrow> (error + unit) \<times> world" where
  "scan_roots fns listdir [] w = (Inr (), w)"
| "scan_roots fns listdir (backup_root # rest) w =
     (case scan_ids fns backup_root (listdir backup_root) w of
        (Inl e, w1) \<Rightarrow> (Inl e, w1)
      | (Inr _, w1) \<Rightarrow> scan_roots fns listdir rest w1)"

section \<open>Dictionaries\<close>

text \<open>
  A Python dictionary in insertion order: assigning to a key that is present replaces
  its value in place, assigning to a new key appends it; reading a missing key raises
  \<^verbatim>\<open>KeyError\<close>.
\<close>

fun dict_set :: "('k \<times> 'v) list \<Rightarrow> 'k \<Rightarrow> 'v \<Rightarrow> ('k \<times> 'v) list" where
  "dict_set [] k v = [(k, v)]"
| "dict_set ((k', v') # d) k v = (if k' = k then (k', v) # d else (k', v') # dict_set d k v)"

definition dict_get :: "('k \<times> 'v) list \<Rightarrow> 'k \<Rightarrow> error + 'v" where
  "dict_get d k = (case map_of d k of None \<Rightarrow> Inl KeyError | Some v \<Rightarrow> Inr v)"

text \<open>\<^verbatim>\<open>{row[by]: row for row in result}\<close>\<close>

definition dict_by :: "('r \<Rightarrow> 'k) \<Rightarrow> 'r list \<Rightarrow> ('k \<times> 'r) list" where
  "dict_by key rows = foldl (\<lambda>d r. dict_set d (key r) r) [] rows"

text \<open>\<^verbatim>\<open>d.setdefault(key, [])\<close> read as a list, for a key that may be missing.\<close>

definition setdefault_list :: "'a list option \<Rightarrow> 'a list" where
  "setdefault_list v = (case v of None \<Rightarrow> [] | Some xs \<Rightarrow> xs)"

text \<open>Following the references of a list into the dictionary that holds the objects.\<close>

definition deref :: "(int \<times> 'a) list \<Rightarrow> int list \<Rightarrow> 'a list" where
  "deref store ids = List.map_filter (map_of store) ids"

section \<open>Phone numbers\<close>

text \<open>
  \<^verbatim>\<open>phonenumbers.parse(input, "US")\<close> belongs to a library outside the repository and is a
  parameter: given the argument (a string or \<^verbatim>\<open>None\<close>) it returns a number, of which the
  program reads the country code and the national number, or raises an exception.
  \<^verbatim>\<open>parse_phone_number\<close> catches \<^verbatim>\<open>NumberParseException\<close> and returns \<^verbatim>\<open>None\<close> for it;
  any other exception of the library passes through.
\<close>

type_synonym phone_parser = "string option \<Rightarrow> error + (nat \<times> nat)"

definition parse_phone_number :: "phone_parser \<Rightarrow> string option \<Rightarrow> error + string option" where
  "parse_phone_number parse input =
     (case parse input of
        Inl e \<Rightarrow> if e = NumberParseException then Inr None else Inl e
      | Inr (country_code, national_number) \<Rightarrow>
          Inr (Some (''+'' @ str_nat country_code @ str_nat national_number)))"

text \<open>
  The library's contract on the arguments the program passes: it raises nothing but
  \<^verbatim>\<open>NumberParseException\<close>.
\<close>

definition raises_only_parse_exception :: "phone_parser \<Rightarrow> bool" where
  "raises_only_parse_exception parse = (\<forall>x e. parse x = Inl e \<longrightarrow> e = NumberParseException)"

text \<open>
  \<^verbatim>\<open>str.isdigit\<close>: the string is not empty and every character is a digit. Among the
  characters below U+0100, which are all a \<^typ>\<open>char\<close> can hold, the digits are the ten
  ASCII digits and the superscripts U+00B2, U+00B3 and U+00B9.
\<close>

definition digit_chars :: "char list" where
  "digit_chars = ''0123456789'' @ [CHR 0xB2, CHR 0xB3, CHR 0xB9]"

definition isdigit :: "string \<Rightarrow> bool" where
  "isdigit s = (s \<noteq> [] \<and> list_all (\<lambda>c. c \<in> set digit_chars) s)"

text \<open>The canonical form: a plus sign and then at least two decimal digits.\<close>

definition is_canonical :: "string \<Rightarrow> bool" where
  "is_canonical s =
     (case s of
        [] \<Rightarrow> False
      | c # ds \<Rightarrow> c = CHR ''+'' \<and> 2 \<le> length ds \<and> list_all (\<lambda>c. c \<in> set ''0123456789'') ds)"

section \<open>The contacts pipeline\<close>

text \<open>
  The \<^verbatim>\<open>if\<close>/\<^verbatim>\<open>elif\<close> chain of the loop over \<^verbatim>\<open>ABMultiValue\<close>: the kind and the
  string that is stored. The phone branch is taken when the normalised number is neither
  \<^verbatim>\<open>None\<close> nor empty. An empty or \<^verbatim>\<open>NULL\<close> value is skipped before the chain.
\<close>

definition classify_contact :: "phone_parser \<Rightarrow> string \<Rightarrow> error + (string \<times> string)" where
  "classify_contact parse contact =
     (if CHR ''@'' \<in> set contact then Inr (''email'', contact)
      else if isdigit contact \<and> length contact \<le> 6 then Inr (''shortcode'', contact)
      else (case parse_phone_number parse (Some contact) of
              Inl e \<Rightarrow> Inl e
            | Inr None \<Rightarrow> Inr (''unknown'', contact)
            | Inr (Some phone) \<Rightarrow>
                if phone \<noteq> [] then Inr (''phone'', phone) else Inr (''unknown'', contact)))"

definition classify_value ::
  "phone_parser \<Rightarrow> string option \<Rightarrow> error + (string \<times> string) option" where
  "classify_value parse v =
     (case v of
        None \<Rightarrow> Inr None
      | Some contact \<Rightarrow>
          if contact = [] then Inr None else map_sum id Some (classify_contact parse contact))"

definition add_contact :: "person \<Rightarrow> string \<Rightarrow> string \<Rightarrow> person" where
  "add_contact p kind contact =
     (let contacts = (case p_contacts p of None \<Rightarrow> [] | Some d \<Rightarrow> d)
      in p\<lparr>p_contacts :=
             Some (dict_set contacts kind (setdefault_list (map_of contacts kind) @ [contact]))\<rparr>)"

fun values_loop ::
  "phone_parser \<Rightarrow> (int \<times> string option) list \<Rightarrow> (int \<times> person) list \<Rightarrow> error + (int \<times> person) list" where
  "values_loop parse [] people = Inr people"
| "values_loop parse ((person_id, v) # rest) people =
     (case classify_value parse v of
        Inl e \<Rightarrow> Inl e
      | Inr None \<Rightarrow> values_loop parse rest people
      | Inr (Some (kind, contact)) \<Rightarrow>
          (case map_of people person_id of
             None \<Rightarrow> Inl KeyError
           | Some p \<Rightarrow>
               values_loop parse rest (dict_set people person_id (add_contact p kind contact))))"

text \<open>The display name, from the parts that are neither \<^verbatim>\<open>NULL\<close> nor empty.\<close>

fun py_join :: "string \<Rightarrow> string list \<Rightarrow> string" where
  "py_join s [] = []"
| "py_join s [x] = x"
| "py_join s (x # y # ys) = x @ s @ py_join s (y # ys)"

definition name_part :: "string option \<Rightarrow> string list" where
  "name_part v = (case v of None \<Rightarrow> [] | Some s \<Rightarrow> if s = [] then [] else [s])"

definition display_name_of :: "abperson_row \<Rightarrow> string" where
  "display_name_of r =
     (let d1 = name_part (person_first r);
          d2 = d1 @ map (\<lambda>n. ''\"'' @ n @ ''\"'') (name_part (person_nickname r));
          d3 = d2 @ name_part (person_last r);
          d4 = d3 @ map (\<lambda>n. if d3 \<noteq> [] then ''('' @ n @ '')'' else n)
                      (name_part (person_organization r))
      in py_join '' '' d4)"

definition make_person :: "abperson_row \<Rightarrow> person" where
  "make_person r = \<lparr>p_row = r, p_display_name = display_name_of r, p_contacts = None\<rparr>"

text \<open>
  The construction of \<^verbatim>\<open>CONTACTS_LOOKUP\<close>; the table built so far stays when a person
  without \<^verbatim>\<open>contacts\<close> or without \<^verbatim>\<open>uuid\<close> raises.
\<close>

fun lookup_contacts ::
  "person \<Rightarrow> string list \<Rightarrow> (string \<times> (string \<times> string)) list
     \<Rightarrow> (error + unit) \<times> (string \<times> (string \<times> string)) list" where
  "lookup_contacts p [] lookup = (Inr (), lookup)"
| "lookup_contacts p (contact # rest) lookup =
     (case person_guid (p_row p) of
        None \<Rightarrow> (Inl KeyError, lookup)
      | Some uuid \<Rightarrow> lookup_contacts p rest (dict_set lookup contact (uuid, p_display_name p)))"

fun lookup_people ::
  "person list \<Rightarrow> (string \<times> (string \<times> string)) list
     \<Rightarrow> (error + unit) \<times> (string \<times> (string \<times> string)) list" where
  "lookup_people [] lookup = (Inr (), lookup)"
| "lookup_people (p # rest) lookup =
     (case p_contacts p of
        None \<Rightarrow> (Inl KeyError, lookup)
      | Some contacts \<Rightarrow>
          (case lookup_contacts p (concat (map snd contacts)) lookup of
             (Inl e, lookup1) \<Rightarrow> (Inl e, lookup1)
           | (Inr _, lookup1) \<Rightarrow> lookup_people rest lookup1))"

definition backup_contacts :: "phone_parser \<Rightarrow> ios_backup \<Rightarrow> world \<Rightarrow> (error + unit) \<times> world" where
  "backup_contacts parse backup w =
     (case IOSBackup_file backup ''HomeDomain'' ''Library/AddressBook/AddressBook.sqlitedb'' w of
        Inl e \<Rightarrow> (Inl e, w)
      | Inr f \<Rightarrow>
          (case open_db f w of
             (Inl e, w1) \<Rightarrow> (Inl e, w1)
           | (Inr db, w1) \<Rightarrow>
               (case fs w1 db of
                  Some (File (AddressBookDb ab)) \<Rightarrow>
                    (let people = dict_by (\<lambda>p. person_rowid (p_row p))
                                    (map make_person (abperson_table ab))
                     in case values_loop parse (abmultivalue_table ab) people of
                          Inl e \<Rightarrow> (Inl e, w1)
                        | Inr people1 \<Rightarrow>
                            (let w2 = w1\<lparr>outputs := outputs w1 @
                                        [(''messages/contacts.json'', PeopleJson (map snd people1))]\<rparr>
                             in case lookup_people (map snd people1) (contacts_lookup w2) of
                                  (r, lookup1) \<Rightarrow> (r, w2\<lparr>contacts_lookup := lookup1\<rparr>)))
                | _ \<Rightarrow> (Inl SqliteError, w1))))"

section \<open>The messaging pipeline\<close>

text \<open>
  The identity \<^verbatim>\<open>CONTACTS_LOOKUP\<close> holds for a handle's contact string, looked up under
  the normalised number when there is one and under the raw string otherwise.
\<close>

definition resolve_contact ::
  "phone_parser \<Rightarrow> (string \<times> (string \<times> string)) list \<Rightarrow> string option
     \<Rightarrow> error + (string \<times> string) option" where
  "resolve_contact parse lookup contact =
     (case parse_phone_number parse contact of
        Inl e \<Rightarrow> Inl e
      | Inr phone \<Rightarrow>
          (let contact1 = (case phone of
                             None \<Rightarrow> contact
                           | Some p \<Rightarrow> if p \<noteq> [] then Some p else contact)
           in Inr (case contact1 of None \<Rightarrow> None | Some c \<Rightarrow> map_of lookup c)))"

definition annotate_handle ::
  "phone_parser \<Rightarrow> (string \<times> (string \<times> string)) list \<Rightarrow> handle \<Rightarrow> error + handle" where
  "annotate_handle parse lookup h =
     (case resolve_contact parse lookup (handle_contact (h_row h)) of
        Inl e \<Rightarrow> Inl e
      | Inr None \<Rightarrow> Inr h
      | Inr (Some ident) \<Rightarrow> Inr (h\<lparr>h_identity := Some ident\<rparr>))"

text \<open>The loop over \<^verbatim>\<open>chat_handle_join\<close>, rows as (chat id, handle id).\<close>

fun chat_handles_loop ::
  "phone_parser \<Rightarrow> (string \<times> (string \<times> string)) list \<Rightarrow> (int \<times> int) list
     \<Rightarrow> (int \<times> handle) list \<Rightarrow> (int \<times> chat) list
     \<Rightarrow> error + ((int \<times> handle) list \<times> (int \<times> chat) list)" where
  "chat_handles_loop parse lookup [] handles chats = Inr (handles, chats)"
| "chat_handles_loop parse lookup ((chat_id, handle_id) # rest) handles chats =
     (case map_of handles handle_id of
        None \<Rightarrow> Inl KeyError
      | Some h \<Rightarrow>
          (case annotate_handle parse lookup h of
             Inl e \<Rightarrow> Inl e
           | Inr h1 \<Rightarrow>
               (case map_of chats chat_id of
                  None \<Rightarrow> Inl KeyError
                | Some c \<Rightarrow>
                    chat_handles_loop parse lookup rest (dict_set handles handle_id h1)
                      (dict_set chats chat_id
                         (c\<lparr>c_members := Some (setdefault_list (c_members c) @ [handle_id])\<rparr>)))))"

text \<open>
  The loop over the messages: a message whose handle id is not a key of \<^verbatim>\<open>handles\<close>
  is left as it is (\<^verbatim>\<open>continue\<close>) and stays in \<^verbatim>\<open>messages\<close>.
\<close>

definition annotate_message ::
  "phone_parser \<Rightarrow> (string \<times> (string \<times> string)) list \<Rightarrow> (int \<times> handle) list
     \<Rightarrow> message \<Rightarrow> error + message" where
  "annotate_message parse lookup handles m =
     (case map_of handles (message_handle_id (m_row m)) of
        None \<Rightarrow> Inr m
      | Some h \<Rightarrow>
          (case resolve_contact parse lookup (handle_contact (h_row h)) of
             Inl e \<Rightarrow> Inl e
           | Inr None \<Rightarrow> Inr m
           | Inr (Some ident) \<Rightarrow> Inr (m\<lparr>m_sender := Some ident\<rparr>)))"

fun annotate_messages ::
  "phone_parser \<Rightarrow> (string \<times> (string \<times> string)) list \<Rightarrow> (int \<times> handle) list
     \<Rightarrow> (int \<times> message) list \<Rightarrow> error + (int \<times> message) list" where
  "annotate_messages parse lookup handles [] = Inr []"
| "annotate_messages parse lookup handles ((k, m) # rest) =
     (case annotate_message parse lookup handles m of
        Inl e \<Rightarrow> Inl e
      | Inr m1 \<Rightarrow>
          (case annotate_messages parse lookup handles rest of
             Inl e \<Rightarrow> Inl e
           | Inr rest1 \<Rightarrow> Inr ((k, m1) # rest1)))"

text \<open>The loop over \<^verbatim>\<open>chat_message_join\<close>, rows as (chat id, message id).\<close>

fun chat_messages_loop ::
  "(int \<times> int) list \<Rightarrow> (int \<times> message) list \<Rightarrow> (int \<times> chat) list
     \<Rightarrow> error + (int \<times> chat) list" where
  "chat_messages_loop [] messages chats = Inr chats"
| "chat_messages_loop ((chat_id, message_id) # rest) messages chats =
     (case map_of chats chat_id of
        None \<Rightarrow> Inl KeyError
      | Some c \<Rightarrow>
          (case map_of messages message_id of
             None \<Rightarrow> Inl KeyError
           | Some _ \<Rightarrow>
               chat_messages_loop rest messages
                 (dict_set chats chat_id
                    (c\<lparr>c_messages := Some (setdefault_list (c_messages c) @ [message_id])\<rparr>))))"

text \<open>The loop over \<^verbatim>\<open>message_attachment_join\<close>, rows as (message id, attachment id).\<close>

fun message_attachments_loop ::
  "(int \<times> int) list \<Rightarrow> (int \<times> attachment_row) list \<Rightarrow> (int \<times> message) list
     \<Rightarrow> error + (int \<times> message) list" where
  "message_attachments_loop [] attachments messages = Inr messages"
| "message_attachments_loop ((message_id, attachment_id) # rest) attachments messages =
     (case map_of messages message_id of
        None \<Rightarrow> Inl KeyError
      | Some m \<Rightarrow>
          (case map_of attachments attachment_id of
             None \<Rightarrow> Inl KeyError
           | Some a \<Rightarrow>
               message_attachments_loop rest attachments
                 (dict_set messages message_id
                    (m\<lparr>m_attachments := Some (setdefault_list (m_attachments m) @ [a])\<rparr>))))"

text \<open>What \<^verbatim>\<open>json.dump\<close> sees of a chat when it is written.\<close>

definition chat_snapshot ::
  "(int \<times> handle) list \<Rightarrow> (int \<times> message) list \<Rightarrow> chat \<Rightarrow> chat_out" where
  "chat_snapshot handles messages c =
     \<lparr>out_row = c_row c,
      out_members = map_option (deref handles) (c_members c),
      out_messages = map_option (deref messages) (c_messages c)\<rparr>"

text \<open>The last loop: one file for every chat that has the key \<^verbatim>\<open>messages\<close>.\<close>

definition message_data ::
  "(int \<times> message) list \<Rightarrow> chat list \<Rightarrow> (string \<times> json_out) list" where
  "message_data messages chats =
     concat (map (\<lambda>c. case c_messages c of
                         None \<Rightarrow> []
                       | Some ids \<Rightarrow>
                           [(''messages/message-data/'' @ str_int (chat_rowid (c_row c)) @ ''.json'',
                             MessagesJson (deref messages ids))]) chats)"

text \<open>
  The pipeline from the first query on: the result and the files written, in order.
  A \<^verbatim>\<open>KeyError\<close> leaves the files written before it.
\<close>

definition messages_core ::
  "phone_parser \<Rightarrow> (string \<times> (string \<times> string)) list \<Rightarrow> sms_db
     \<Rightarrow> (error + unit) \<times> (string \<times> json_out) list" where
  "messages_core parse lookup db =
     (let chats = dict_by (\<lambda>c. chat_rowid (c_row c))
                    (map (\<lambda>r. \<lparr>c_row = r, c_members = None, c_messages = None\<rparr>) (chat_table db));
          handles = dict_by (\<lambda>h. handle_rowid (h_row h))
                      (map (\<lambda>r. \<lparr>h_row = r, h_identity = None\<rparr>) (handle_table db))
      in case chat_handles_loop parse lookup (chat_handle_join db) handles chats of
           Inl e \<Rightarrow> (Inl e, [])
         | Inr (handles1, chats1) \<Rightarrow>
             (let out1 = [(''messages/chats.json'',
                           ChatsJson (map (chat_snapshot handles1 []) (map snd chats1)))];
                  messages = dict_by (\<lambda>m. message_rowid (m_row m))
                               (map (\<lambda>r. \<lparr>m_row = r, m_sender = None, m_attachments = None\<rparr>)
                                  (message_table db))
              in case annotate_messages parse lookup handles1 messages of
                   Inl e \<Rightarrow> (Inl e, out1)
                 | Inr messages1 \<Rightarrow>
                     (case chat_messages_loop (chat_message_join db) messages1 chats1 of
                        Inl e \<Rightarrow> (Inl e, out1)
                      | Inr chats2 \<Rightarrow>
                          (let attachments = dict_by attachment_rowid (attachment_table db)
                           in case message_attachments_loop (message_attachment_join db)
                                     attachments messages1 of
                                Inl e \<Rightarrow> (Inl e, out1)
                              | Inr messages2 \<Rightarrow>
                                  (Inr (),
                                   out1 @
                                   [(''messages/chats-full.json'',
                                     ChatsJson (map (chat_snapshot handles1 messages2)
                                                  (map snd chats2)))] @
                                   message_data messages2 (map snd chats2))))))"

definition backup_messages :: "phone_parser \<Rightarrow> ios_backup \<Rightarrow> world \<Rightarrow> (error + unit) \<times> world" where
  "backup_messages parse backup w =
     (case IOSBackup_file backup ''HomeDomain'' ''Library/SMS/sms.db'' w of
        Inl e \<Rightarrow> (Inl e, w)
      | Inr f \<Rightarrow>
          (case open_db f w of
             (Inl e, w1) \<Rightarrow> (Inl e, w1)
           | (Inr db, w1) \<Rightarrow>
               (if contacts_lookup w1 = [] then (Inl ContactsNotDefinedException, w1)
                else (case fs w1 db of
                        Some (File (SmsDb sms)) \<Rightarrow>
                          (case messages_core parse (contacts_lookup w1) sms of
                             (r, out) \<Rightarrow> (r, w1\<lparr>outputs := outputs w1 @ out\<rparr>))
                      | _ \<Rightarrow> (Inl SqliteError, w1)))))"

section \<open>Join rows and the rows they refer to\<close>







text \<open>Every entry of a dictionary is stored under its own key.\<close>

definition keyed :: "('v \<Rightarrow> 'k) \<Rightarrow> ('k \<times> 'v) list \<Rightarrow> bool" where
  "keyed key d = (\<forall>(k, v) \<in> set d. key v = k)"

text \<open>The chat stored under a chat id lists a message id.\<close>

definition has_message :: "(int \<times> chat) list \<Rightarrow> int \<Rightarrow> int \<Rightarrow> bool" where
  "has_message chats c m =
     (case map_of chats c of
        None \<Rightarrow> False
      | Some cv \<Rightarrow> (case c_messages cv of None \<Rightarrow> False | Some ids \<Rightarrow> m \<in> set ids))"

text \<open>The dictionaries the messaging pipeline starts from.\<close>

abbreviation chats0 :: "sms_db \<Rightarrow> (int \<times> chat) list" where
  "chats0 db \<equiv> dict_by (\<lambda>c. chat_rowid (c_row c))
     (map (\<lambda>r. \<lparr>c_row = r, c_members = None, c_messages = None\<rparr>) (chat_table db))"

abbreviation handles0 :: "sms_db \<Rightarrow> (int \<times> handle) list" where
  "handles0 db \<equiv> dict_by (\<lambda>h. handle_rowid (h_row h))
     (map (\<lambda>r. \<lparr>h_row = r, h_identity = None\<rparr>) (handle_table db))"

abbreviation messages0 :: "sms_db \<Rightarrow> (int \<times> message) list" where
  "messages0 db \<equiv> dict_by (\<lambda>m. message_rowid (m_row m))
     (map (\<lambda>r. \<lparr>m_row = r, m_sender = None, m_attachments = None\<rparr>) (message_table db))"

abbreviation attachments0 :: "sms_db \<Rightarrow> (int \<times> attachment_row) list" where
  "attachments0 db \<equiv> dict_by attachment_rowid (attachment_table db)"

section \<open>Example data\<close>

text \<open>
  A stand-in for the library's parser in the examples: it knows the one number of the
  specification's example, however it is punctuated, and rejects every other string.
\<close>

definition example_parser :: phone_parser where
  "example_parser x =
     (case x of
        None \<Rightarrow> Inl NumberParseException
      | Some s \<Rightarrow>
          if filter (\<lambda>c. c \<in> set ''0123456789'') s = ''5551234'' then Inr (1, 5551234)
          else Inl NumberParseException)"

definition ex_backup :: ios_backup where
  "ex_backup = \<lparr>b_path = ''/b'', b_info_plist = [(''Unique Identifier'', ''u1'')],
                b_id = Some ''u1'', b_manifest_temp_path = ''/tmp/u1/Manifest.db''\<rparr>"

definition sms_row :: files_row where
  "sms_row = \<lparr>fileID = ''abcd1234'', domain = ''HomeDomain'',
              relativePath = ''Library/SMS/sms.db''\<rparr>"

definition sms_file :: ios_backup_file where
  "sms_file = \<lparr>f_backup = ex_backup, f_domain = ''HomeDomain'', f_path = ''Library/SMS/sms.db'',
               f_id = ''abcd1234'', real_path = ''/b/ab/abcd1234'', temp_path = None\<rparr>"

definition ex_message :: message_row where
  "ex_message = \<lparr>message_rowid = 10, message_guid = ''m10'', message_date = 0,
                 message_handle_id = 0, message_text = Some ''hi'',
                 message_reply_to_guid = None\<rparr>"

text \<open>One chat, no handle, and one message of handle id 0 joined to the chat.\<close>

definition ex_sms :: sms_db where
  "ex_sms = \<lparr>chat_table = [\<lparr>chat_rowid = 1, chat_guid = ''c1''\<rparr>],
             handle_table = [],
             chat_handle_join = [],
             message_table = [ex_message],
             chat_message_join = [(1, 10)],
             attachment_table = [],
             message_attachment_join = []\<rparr>"



text \<open>What the messaging pipeline writes for \<open>ex_sms\<close>.\<close>

definition ex_outputs :: "(string \<times> json_out) list" where
  "ex_outputs =
     [(''messages/chats.json'',
       ChatsJson [\<lparr>out_row = \<lparr>chat_rowid = 1, chat_guid = ''c1''\<rparr>, out_members = None,
                   out_messages = None\<rparr>]),
      (''messages/chats-full.json'',
       ChatsJson [\<lparr>out_row = \<lparr>chat_rowid = 1, chat_guid = ''c1''\<rparr>, out_members = None,
                   out_messages =
                     Some [\<lparr>m_row = ex_message, m_sender = None, m_attachments = None\<rparr>]\<rparr>]),
      (''messages/message-data/1.json'',
       MessagesJson [\<lparr>m_row = ex_message, m_sender = None, m_attachments = None\<rparr>])]"

definition ex_lookup :: "(string \<times> (string \<times> string)) list" where
  "ex_lookup = [(''+15551234'', (''p1'', ''Ann Lee''))]"

text \<open>
  A world in which the backup's manifest and the messaging database have been copied to
  the scratch area by an earlier run.
\<close>

definition ex_world ::
  "files_row list \<Rightarrow> (string \<times> (string \<times> string)) list \<Rightarrow> sms_db \<Rightarrow> world" where
  "ex_world manifest lookup db =
     \<lparr>fs = map_of [(''/tmp/u1/Manifest.db'', File (ManifestDb manifest)),
                   (''/b/ab/abcd1234'', File (SmsDb db)),
                   (''/tmp/u1/HomeDomain/Library/SMS/sms.db'', File (SmsDb db))],
      copied = [], outputs = [], contacts_lookup = lookup\<rparr>"

text \<open>A world with one source file and an empty scratch area.\<close>

definition src_world :: world where
  "src_world = \<lparr>fs = map_of [(''/s'', File (Bytes ''x''))], copied = [], outputs = [],
                contacts_lookup = []\<rparr>"

text \<open>
  A backup in \<^verbatim>\<open>/r/Y\<close> whose manifest, address book and messaging database are in the
  scratch area already; the address book has one person with a phone number, an email
  address and an empty value. There is no \<^verbatim>\<open>/r/X/Info.plist\<close>.
\<close>

definition ab_row :: files_row where
  "ab_row = \<lparr>fileID = ''ef567890'', domain = ''HomeDomain'',
             relativePath = ''Library/AddressBook/AddressBook.sqlitedb''\<rparr>"

definition ex_person :: abperson_row where
  "ex_person = \<lparr>person_rowid = 1, person_guid = Some ''p1'', person_first = Some ''Ann'',
                person_last = Some ''Lee'', person_nickname = None,
                person_organization = None\<rparr>"

definition ex_ab :: addressbook_db where
  "ex_ab = \<lparr>abperson_table = [ex_person],
            abmultivalue_table =
              [(1, Some ''555-1234''), (1, Some ''ann@example.org''), (1, Some [])]\<rparr>"

definition y_backup :: ios_backup where
  "y_backup = \<lparr>b_path = ''/r/Y'', b_info_plist = [(''Unique Identifier'', ''u1'')],
               b_id = Some ''u1'', b_manifest_temp_path = ''/tmp/u1/Manifest.db''\<rparr>"

definition scan_world :: world where
  "scan_world =
     \<lparr>fs = map_of [(''/r/Y/Info.plist'', File (PlistDoc [(''Unique Identifier'', ''u1'')])),
                   (''/tmp/u1/Manifest.db'', File (ManifestDb [sms_row, ab_row])),
                   (''/tmp/u1/HomeDomain/Library/SMS/sms.db'', File (SmsDb ex_sms)),
                   (''/tmp/u1/HomeDomain/Library/AddressBook/AddressBook.sqlitedb'',
                    File (AddressBookDb ex_ab))],
      copied = [], outputs = [], contacts_lookup = []\<rparr>"

text \<open>A candidate directory whose \<^verbatim>\<open>Info.plist\<close> is not a property list.\<close>

definition junk_world :: world where
  "junk_world = \<lparr>fs = map_of [(''/r/X/Info.plist'', File (Bytes ''junk''))], copied = [],
                 outputs = [], contacts_lookup = []\<rparr>"

section \<open>The scratch copy\<close>

lemma copy2_exists:
  "copy2 src dst w = (Inr u, w') \<Longrightarrow> path_exists w' dst"
  by (auto simp: copy2_def path_exists_def Let_def split: option.splits node.splits if_splits)

lemma copy2_copied:
  "copy2 src dst w = (r, w') \<Longrightarrow> length (copied w') \<le> Suc (length (copied w))"
  by (auto simp: copy2_def Let_def split: option.splits node.splits if_splits)

lemma makedirs_copied:
  "makedirs d w = (r, w') \<Longrightarrow> copied w' = copied w"
  by (auto simp: makedirs_def split: if_splits)

lemma make_temporary_copy_copied:
  "make_temporary_copy i s d w = (r, w') \<Longrightarrow> length (copied w') \<le> Suc (length (copied w))"
  by (auto simp: make_temporary_copy_def Let_def split: if_splits prod.splits sum.splits
           dest!: makedirs_copied copy2_copied)

lemma make_temporary_copy_success:
  "make_temporary_copy i s d w = (Inr p, w') \<Longrightarrow> p = tmp_path_of i s d \<and> path_exists w' p"
  by (auto simp: make_temporary_copy_def Let_def split: if_splits prod.splits sum.splits
           dest: copy2_exists)

lemma make_temporary_copy_noop:
  "path_exists w (tmp_path_of i s d) \<Longrightarrow>
   make_temporary_copy i s d w = (Inr (tmp_path_of i s d), w)"
  by (simp add: make_temporary_copy_def)

lemma make_temporary_copy_failure:
  "make_temporary_copy i s d w = (Inl e, w') \<Longrightarrow> copied w' = copied w"
  by (auto simp: make_temporary_copy_def Let_def copy2_def
           split: if_splits prod.splits sum.splits option.splits node.splits
           dest!: makedirs_copied)

text \<open>
  C5. Two successive calls of \<^verbatim>\<open>make_temporary_copy\<close> with the same scope key, source and
  logical name complete at most one \<^verbatim>\<open>shutil.copy2\<close> between them; when the first call
  returns a path, it is the scratch path of the arguments, the second call returns the
  same path and leaves the world as the first call left it.
\<close>

theorem make_temporary_copy_idempotent:
  assumes "make_temporary_copy i s d w = (r1, w1)"
      and "make_temporary_copy i s d w1 = (r2, w2)"
  shows "length (copied w2) \<le> Suc (length (copied w)) \<and>
         (\<forall>p. r1 = Inr p \<longrightarrow> p = tmp_path_of i s d \<and> r2 = Inr p \<and> w2 = w1)"
proof (cases r1)
  case (Inl e)
  then have "copied w1 = copied w"
    using assms(1) make_temporary_copy_failure by blast
  then show ?thesis
    using make_temporary_copy_copied[OF assms(2)] Inl by simp
next
  case (Inr p)
  then have p: "p = tmp_path_of i s d" "path_exists w1 p"
    using assms(1) make_temporary_copy_success by blast+
  then have "r2 = Inr p \<and> w2 = w1"
    using assms(2) make_temporary_copy_noop[of w1 i s d] by simp
  then show ?thesis
    using make_temporary_copy_copied[OF assms(1)] Inr p(1) by simp
qed

lemma dirname_example: "dirname ''/tmp/i/d'' = ''/tmp/i''"
  by (simp add: dirname_def rstrip_sep_def sep_def)

lemma ancestors_example: "ancestors ''/tmp/i'' = [''/tmp'', ''/tmp/i'']"
  by (simp add: ancestors_def rstrip_sep_def sep_def upt_rec nth_Cons')

lemma make_temporary_copy_example:
  "fst (make_temporary_copy ''i'' ''/s'' (Some ''d'') src_world) = Inr ''/tmp/i/d'' \<and>
   copied (snd (make_temporary_copy ''i'' ''/s'' (Some ''d'') src_world)) =
     [(''/s'', ''/tmp/i/d'')]"
  by (simp add: make_temporary_copy_def tmp_path_of_def path_exists_def src_world_def
        dirname_example makedirs_def ancestors_example is_file_node_def mkdir_all_def
        copy2_def Let_def)

theorem make_temporary_copy_idempotent_witness:
  "fst (make_temporary_copy ''i'' ''/s'' (Some ''d'') src_world) = Inr ''/tmp/i/d'' \<and>
   make_temporary_copy ''i'' ''/s'' (Some ''d'')
     (snd (make_temporary_copy ''i'' ''/s'' (Some ''d'') src_world)) =
   (Inr ''/tmp/i/d'', snd (make_temporary_copy ''i'' ''/s'' (Some ''d'') src_world)) \<and>
   copied (snd (make_temporary_copy ''i'' ''/s'' (Some ''d'') src_world)) =
     [(''/s'', ''/tmp/i/d'')]"
proof -
  let ?w1 = "snd (make_temporary_copy ''i'' ''/s'' (Some ''d'') src_world)"
  have h1: "make_temporary_copy ''i'' ''/s'' (Some ''d'') src_world = (Inr ''/tmp/i/d'', ?w1)"
    using make_temporary_copy_example by (simp add: prod_eq_iff)
  have h2: "make_temporary_copy ''i'' ''/s'' (Some ''d'') ?w1 =
              (fst (make_temporary_copy ''i'' ''/s'' (Some ''d'') ?w1),
               snd (make_temporary_copy ''i'' ''/s'' (Some ''d'') ?w1))"
    by simp
  from make_temporary_copy_idempotent[OF h1 h2] make_temporary_copy_example
  show ?thesis by (simp add: prod_eq_iff)
qed

section \<open>The physical path\<close>

lemma real_path_join:
  assumes "i \<noteq> []" "sep \<notin> set (take 2 i)"
  shows "os_path_join root [take 2 i, i] =
         (if root = [] \<or> endswith_sep root then root else root @ [sep]) @ take 2 i @ [sep] @ i"
proof -
  obtain c cs where i: "i = c # cs" using assms(1) by (cases i) auto
  have c: "c \<noteq> sep" using assms(2) i by auto
  have t: "take 2 i \<noteq> []" "\<not> startswith_sep (take 2 i)" "\<not> startswith_sep i"
    using i c by (auto simp: startswith_sep_def)
  have l: "last (take 2 i) \<noteq> sep" using assms(2) t(1) last_in_set by metis
  show ?thesis using t l by (auto simp: os_path_join_def join_step_def endswith_sep_def)
qed

text \<open>
  C4. \<^verbatim>\<open>IOSBackupFile.__init__\<close> derives the physical path from the backup's root and the
  content id alone; the file system is no argument of the derivation. For a content id,
  a hash, which is not empty and has no separator among its first two characters, the
  path is the root, a separator (none when the root is empty or ends with one), the
  first two characters of the id, a separator, the id: below the root the path begins
  with the first two characters of the id, and equal ids give equal paths.
\<close>

theorem real_path_derivation:
  assumes "i \<noteq> []" and "CHR ''/'' \<notin> set (take 2 i)"
  shows "IOSBackupFile_init backup dmn path (Some i) =
           Inr \<lparr>f_backup = backup, f_domain = dmn, f_path = path, f_id = i,
                real_path =
                  (if b_path backup = [] \<or> endswith_sep (b_path backup) then b_path backup
                   else b_path backup @ ''/'') @ take 2 i @ ''/'' @ i,
                temp_path = None\<rparr>"
  using real_path_join[of i "b_path backup"] assms
  by (simp add: IOSBackupFile_init_def sep_def)

theorem real_path_derivation_witness:
  "IOSBackupFile_init ex_backup ''HomeDomain'' ''Library/SMS/sms.db'' (Some ''abcd1234'') =
     Inr sms_file \<and>
   map_sum id real_path
     (IOSBackupFile_init ex_backup ''HomeDomain'' ''Library/SMS/sms.db''
        (Some ''3d0d7e5fb2ce288813306e4d4636395e047a3d28'')) =
     Inr ''/b/3d/3d0d7e5fb2ce288813306e4d4636395e047a3d28''"
  using real_path_derivation[of "''abcd1234''" ex_backup "''HomeDomain''" "''Library/SMS/sms.db''"]
        real_path_derivation[of "''3d0d7e5fb2ce288813306e4d4636395e047a3d28''" ex_backup
          "''HomeDomain''" "''Library/SMS/sms.db''"]
  by (simp add: sms_file_def ex_backup_def endswith_sep_def sep_def)

section \<open>The exact-match lookup\<close>

text \<open>
  C2, as amended. When the manifest can be read, \<^verbatim>\<open>IOSBackup.file\<close> returns the file
  record of the one matching row when exactly one row matches the domain and the path,
  and raises \<^verbatim>\<open>FileNotFoundException\<close> when the number of matching rows is not one: the
  same exception for no row and for several rows.
\<close>

theorem file_lookup_exact_match:
  assumes "manifest_rows backup w = Inr rows"
  shows "(\<forall>r. select_fileID rows dmn path = [r] \<longrightarrow>
            IOSBackup_file backup dmn path w =
              Inr \<lparr>f_backup = backup, f_domain = dmn, f_path = path, f_id = fileID r,
                   real_path = os_path_join (b_path backup) [take 2 (fileID r), fileID r],
                   temp_path = None\<rparr>) \<and>
         (length (select_fileID rows dmn path) \<noteq> 1 \<longrightarrow>
            IOSBackup_file backup dmn path w = Inl FileNotFoundException)"
  using assms by (auto simp: IOSBackup_file_def IOSBackupFile_init_def)

lemma manifest_rows_example:
  "manifest_rows ex_backup (ex_world manifest lookup db) = Inr manifest"
  by (simp add: manifest_rows_def ex_backup_def ex_world_def)

lemma b_path_example: "b_path ex_backup = ''/b''"
  by (simp add: ex_backup_def)

lemma sms_file_example:
  "IOSBackup_file ex_backup ''HomeDomain'' ''Library/SMS/sms.db'' (ex_world [sms_row] lookup db)
     = Inr sms_file"
  by (simp add: IOSBackup_file_def manifest_rows_example select_fileID_def sms_row_def
        IOSBackupFile_init_def sms_file_def b_path_example os_path_join_def join_step_def
        startswith_sep_def endswith_sep_def sep_def)

theorem file_lookup_exact_match_witness:
  "IOSBackup_file ex_backup ''HomeDomain'' ''Library/SMS/sms.db'' (ex_world [sms_row] [] ex_sms)
     = Inr sms_file \<and>
   IOSBackup_file ex_backup ''HomeDomain'' ''Library/SMS/sms.db'' (ex_world [] [] ex_sms)
     = Inl FileNotFoundException"
  using file_lookup_exact_match[OF manifest_rows_example,
          of "[sms_row]" "''HomeDomain''" "''Library/SMS/sms.db''" "[]" ex_sms]
        file_lookup_exact_match[OF manifest_rows_example,
          of "[]" "''HomeDomain''" "''Library/SMS/sms.db''" "[]" ex_sms]
  by (simp add: select_fileID_def sms_row_def sms_file_def b_path_example os_path_join_def
        join_step_def startswith_sep_def endswith_sep_def sep_def)

text \<open>
  The claim as stated fails: with two rows for the same domain and path the lookup
  raises the exception it raises with no row.
\<close>

theorem file_lookup_ambiguous_same_error:
  "IOSBackup_file ex_backup ''HomeDomain'' ''Library/SMS/sms.db''
     (ex_world [sms_row, sms_row] [] ex_sms) = Inl FileNotFoundException \<and>
   IOSBackup_file ex_backup ''HomeDomain'' ''Library/SMS/sms.db''
     (ex_world [] [] ex_sms) = Inl FileNotFoundException"
  by (simp add: IOSBackup_file_def manifest_rows_example select_fileID_def sms_row_def)

section \<open>Phone numbers and the classification of contacts\<close>

lemma digit_char_digit: "d < 10 \<Longrightarrow> digit_char d \<in> set ''0123456789''"
  unfolding digit_char_def by (rule nth_mem) simp

lemma str_nat_digits:
  "str_nat n \<noteq> [] \<and> list_all (\<lambda>c. c \<in> set ''0123456789'') (str_nat n)"
proof (induction n rule: str_nat.induct)
  case (1 n)
  show ?case
  proof (cases "n < 10")
    case True
    then show ?thesis
      using digit_char_digit[of n] by (subst str_nat.simps, subst str_nat.simps) simp
  next
    case False
    then have "n mod 10 < 10" by simp
    with False 1 digit_char_digit[of "n mod 10"] show ?thesis
      by (subst str_nat.simps, subst str_nat.simps) simp
  qed
qed

lemma canonical_format: "is_canonical (''+'' @ str_nat cc @ str_nat nn)"
proof -
  have "str_nat cc \<noteq> []" "str_nat nn \<noteq> []" using str_nat_digits by auto
  then have "1 \<le> length (str_nat cc)" "1 \<le> length (str_nat nn)"
    by (simp_all add: Suc_leI)
  then have "2 \<le> length (str_nat cc @ str_nat nn)" by simp
  then show ?thesis using str_nat_digits[of cc] str_nat_digits[of nn]
    by (simp add: is_canonical_def)
qed

lemma parse_phone_number_contract:
  assumes "raises_only_parse_exception parse"
  shows "parse_phone_number parse input =
           Inr (case parse input of
                  Inl e \<Rightarrow> None
                | Inr (cc, nn) \<Rightarrow> Some (''+'' @ str_nat cc @ str_nat nn))"
  using assms
  by (auto simp: parse_phone_number_def raises_only_parse_exception_def split: sum.splits)

lemma parse_phone_number_other_exception:
  "parse input = Inl e \<Longrightarrow> e \<noteq> NumberParseException \<Longrightarrow>
   parse_phone_number parse input = Inl e"
  by (simp add: parse_phone_number_def)

lemma example_parser_contract: "raises_only_parse_exception example_parser"
  by (auto simp: raises_only_parse_exception_def example_parser_def split: option.splits if_splits)

lemma str_nat_example:
  "str_nat 1 = ''1''" "str_nat (Suc 0) = ''1''" "str_nat 5551234 = ''5551234''"
  by (simp_all add: str_nat.simps digit_char_def)

text \<open>
  C10. When the library's parser raises nothing but \<^verbatim>\<open>NumberParseException\<close>,
  \<^verbatim>\<open>parse_phone_number\<close> raises nothing at all: where the parser returns a number it
  returns the plus sign followed by the decimal country code and national number of that
  number, which is a string in canonical form, and where the parser raises it returns
  \<^verbatim>\<open>None\<close>.
\<close>

theorem parse_phone_number_total:
  assumes "raises_only_parse_exception parse"
  shows "parse_phone_number parse input =
           Inr (case parse input of
                  Inl e \<Rightarrow> None
                | Inr (cc, nn) \<Rightarrow> Some (''+'' @ str_nat cc @ str_nat nn)) \<and>
         (\<forall>c. parse_phone_number parse input = Inr (Some c) \<longrightarrow> is_canonical c)"
  using parse_phone_number_contract[OF assms, of input] canonical_format
  by (auto split: sum.splits)

theorem parse_phone_number_total_witness:
  "raises_only_parse_exception example_parser \<and>
   parse_phone_number example_parser (Some ''(555) 1234'') = Inr (Some ''+15551234'') \<and>
   is_canonical ''+15551234'' \<and>
   parse_phone_number example_parser (Some ''n/a'') = Inr None \<and>
   parse_phone_number example_parser None = Inr None"
  using parse_phone_number_total[OF example_parser_contract, of "Some ''(555) 1234''"]
        parse_phone_number_total[OF example_parser_contract, of "Some ''n/a''"]
        parse_phone_number_total[OF example_parser_contract, of None]
        example_parser_contract
  by (simp add: example_parser_def str_nat_example)

text \<open>
  C6, as amended. A contact string that is not empty is classified by the first rule
  that applies: it contains \<^verbatim>\<open>@\<close> (email, unchanged); it is all digits and at most six
  characters long (shortcode, unchanged); the parser reads it as a phone number (phone,
  replaced by the canonical form); the parser fails on it (unknown, unchanged). Another
  exception of the parser is passed on. A value that is \<^verbatim>\<open>NULL\<close> or empty is not
  classified: the loop goes to the next row.
\<close>

theorem classify_contact_chain:
  "(contact \<noteq> [] \<longrightarrow>
      classify_value parse (Some contact) =
        (if CHR ''@'' \<in> set contact then Inr (Some (''email'', contact))
         else if isdigit contact \<and> length contact \<le> 6 then Inr (Some (''shortcode'', contact))
         else case parse (Some contact) of
                Inr (cc, nn) \<Rightarrow> Inr (Some (''phone'', ''+'' @ str_nat cc @ str_nat nn))
              | Inl e \<Rightarrow> if e = NumberParseException then Inr (Some (''unknown'', contact))
                         else Inl e)) \<and>
   classify_value parse None = Inr None \<and>
   classify_value parse (Some []) = Inr None \<and>
   values_loop parse ((person_id, None) # rest) people = values_loop parse rest people \<and>
   values_loop parse ((person_id, Some []) # rest) people = values_loop parse rest people"
  by (auto simp: classify_value_def classify_contact_def parse_phone_number_def
           split: option.splits sum.splits)

theorem classify_contact_chain_witness:
  "classify_value example_parser (Some ''555-1234'') = Inr (Some (''phone'', ''+15551234'')) \<and>
   classify_value example_parser (Some ''a@b.c'') = Inr (Some (''email'', ''a@b.c'')) \<and>
   classify_value example_parser (Some ''12345'') = Inr (Some (''shortcode'', ''12345'')) \<and>
   classify_value example_parser (Some [CHR 0xB2]) = Inr (Some (''shortcode'', [CHR 0xB2])) \<and>
   classify_value example_parser (Some ''n/a'') = Inr (Some (''unknown'', ''n/a''))"
  using classify_contact_chain[of "''555-1234''" example_parser]
        classify_contact_chain[of "''a@b.c''" example_parser]
        classify_contact_chain[of "''12345''" example_parser]
        classify_contact_chain[of "[CHR 0xB2]" example_parser]
        classify_contact_chain[of "''n/a''" example_parser]
  by (simp add: example_parser_def isdigit_def digit_chars_def str_nat_example)

text \<open>
  The claim as stated fails for the empty string: it contains no \<^verbatim>\<open>@\<close>, is not all
  digits and is not read as a phone number, and the loop skips it instead of storing it
  as unknown; a person's contacts stay as they were.
\<close>

theorem empty_contact_not_classified:
  "classify_value example_parser (Some '''') = Inr None \<and>
   \<not> isdigit '''' \<and> example_parser (Some '''') = Inl NumberParseException \<and>
   values_loop example_parser [(1, Some '''')] [(1, make_person ex_person)] =
     Inr [(1, make_person ex_person)]"
  by (simp add: classify_value_def isdigit_def example_parser_def)

section \<open>Dictionaries: facts\<close>

lemma map_of_dict_set: "map_of (dict_set d k v) = (map_of d)(k \<mapsto> v)"
  by (induction d) (auto simp: fun_eq_iff)

lemma keys_dict_set: "fst ` set (dict_set d k v) = insert k (fst ` set d)"
  by (simp add: dom_map_of_conv_image_fst[symmetric] map_of_dict_set)


lemma set_dict_set: "set (dict_set d k v) \<subseteq> insert (k, v) (set d)"
  by (induction d) (auto split: if_splits)

lemma keys_foldl_dict_set:
  "fst ` set (foldl (\<lambda>d r. dict_set d (key r) r) d0 rows) = fst ` set d0 \<union> key ` set rows"
  by (induction rows arbitrary: d0) (auto simp: keys_dict_set)

lemma keys_dict_by: "fst ` set (dict_by key rows) = key ` set rows"
  by (simp add: dict_by_def keys_foldl_dict_set)

lemma map_of_foldl_other:
  "k \<notin> key ` set rows \<Longrightarrow>
   map_of (foldl (\<lambda>d r. dict_set d (key r) r) d0 rows) k = map_of d0 k"
  by (induction rows arbitrary: d0) (auto simp: map_of_dict_set)

lemma map_of_foldl_distinct:
  "distinct (map key rows) \<Longrightarrow> r \<in> set rows \<Longrightarrow>
   map_of (foldl (\<lambda>d r. dict_set d (key r) r) d0 rows) (key r) = Some r"
proof (induction rows arbitrary: d0)
  case Nil
  then show ?case by simp
next
  case (Cons x xs)
  show ?case
  proof (cases "r = x")
    case True
    then have "key r \<notin> key ` set xs" using Cons.prems(1) by auto
    then show ?thesis using True by (simp add: map_of_foldl_other map_of_dict_set)
  next
    case False
    then show ?thesis using Cons by auto
  qed
qed

lemma map_of_dict_by:
  "distinct (map key rows) \<Longrightarrow> r \<in> set rows \<Longrightarrow> map_of (dict_by key rows) (key r) = Some r"
  by (simp add: dict_by_def map_of_foldl_distinct)

lemma keyed_dict_set: "keyed key d \<Longrightarrow> key v = k \<Longrightarrow> keyed key (dict_set d k v)"
  using set_dict_set[of d k v] by (auto simp: keyed_def)

lemma keyed_foldl:
  "keyed key d0 \<Longrightarrow> keyed key (foldl (\<lambda>d r. dict_set d (key r) r) d0 rows)"
  by (induction rows arbitrary: d0) (auto simp: keyed_dict_set)

lemma keyed_dict_by: "keyed key (dict_by key rows)"
  unfolding dict_by_def by (rule keyed_foldl) (simp add: keyed_def)

lemma keyed_map_of: "keyed key d \<Longrightarrow> map_of d k = Some v \<Longrightarrow> key v = k \<and> v \<in> snd ` set d"
  by (force simp: keyed_def dest: map_of_SomeD)

lemma set_deref: "set (deref store ids) = {v. \<exists>i \<in> set ids. map_of store i = Some v}"
  unfolding deref_def by (induction ids) (auto split: option.splits)

section \<open>The loops of the messaging pipeline\<close>




lemma annotate_message_missing:
  "message_handle_id (m_row m) \<notin> fst ` set handles \<Longrightarrow>
   annotate_message parse lookup handles m = Inr m"
  by (simp add: annotate_message_def map_of_eq_None_iff[THEN iffD2])

lemma chat_handles_loop_step:
  assumes "chat_handles_loop parse lookup ((c, h) # rows) handles chats = Inr res"
  obtains hv h1 cv where
    "map_of handles h = Some hv" "annotate_handle parse lookup hv = Inr h1"
    "map_of chats c = Some cv"
    "chat_handles_loop parse lookup rows (dict_set handles h h1)
       (dict_set chats c (cv\<lparr>c_members := Some (setdefault_list (c_members cv) @ [h])\<rparr>))
     = Inr res"
  using assms by (auto split: option.splits sum.splits)

lemma chat_handles_loop_ok:
  "chat_handles_loop parse lookup rows handles chats = Inr (handles1, chats1) \<Longrightarrow>
   (\<forall>(c, h) \<in> set rows. h \<in> fst ` set handles \<and> c \<in> fst ` set chats) \<and>
   fst ` set handles1 = fst ` set handles \<and> fst ` set chats1 = fst ` set chats"
proof (induction rows arbitrary: handles chats)
  case Nil
  then show ?case by simp
next
  case (Cons row rows)
  obtain c h where row: "row = (c, h)" by (cases row)
  from Cons.prems[unfolded row] obtain hv h1 cv where
    hv: "map_of handles h = Some hv" and cv: "map_of chats c = Some cv" and
    loop: "chat_handles_loop parse lookup rows (dict_set handles h h1)
             (dict_set chats c (cv\<lparr>c_members := Some (setdefault_list (c_members cv) @ [h])\<rparr>))
           = Inr (handles1, chats1)"
    by (rule chat_handles_loop_step)
  have hk: "h \<in> fst ` set handles" "c \<in> fst ` set chats"
    using hv cv by (auto dest!: map_of_SomeD intro: rev_image_eqI)
  from Cons.IH[OF loop] hk row show ?case
    by (auto simp: keys_dict_set insert_absorb)
qed



lemma chat_handles_loop_keyed:
  "chat_handles_loop parse lookup rows handles chats = Inr (handles1, chats1) \<Longrightarrow>
   keyed (\<lambda>c. chat_rowid (c_row c)) chats \<Longrightarrow> keyed (\<lambda>c. chat_rowid (c_row c)) chats1"
proof (induction rows arbitrary: handles chats)
  case Nil
  then show ?case by simp
next
  case (Cons row rows)
  obtain c h where row: "row = (c, h)" by (cases row)
  from Cons.prems(1)[unfolded row] obtain hv h1 cv where
    cv: "map_of chats c = Some cv" and
    loop: "chat_handles_loop parse lookup rows (dict_set handles h h1)
             (dict_set chats c (cv\<lparr>c_members := Some (setdefault_list (c_members cv) @ [h])\<rparr>))
           = Inr (handles1, chats1)"
    by (rule chat_handles_loop_step)
  have k: "chat_rowid (c_row cv) = c" using keyed_map_of[OF Cons.prems(2) cv] by simp
  from Cons.IH[OF loop] show ?case
    using keyed_dict_set[OF Cons.prems(2),
            of "cv\<lparr>c_members := Some (setdefault_list (c_members cv) @ [h])\<rparr>" c] k
    by simp
qed



lemma annotate_messages_map_of:
  "annotate_messages parse lookup handles messages = Inr ms \<Longrightarrow>
   map_of messages k = Some m \<Longrightarrow>
   \<exists>m1. map_of ms k = Some m1 \<and> annotate_message parse lookup handles m = Inr m1"
proof (induction messages arbitrary: ms)
  case Nil
  then show ?case by simp
next
  case (Cons km messages)
  obtain k0 m0 where km: "km = (k0, m0)" by (cases km)
  from Cons.prems(1) km obtain m1 rest1 where
    a: "annotate_message parse lookup handles m0 = Inr m1"
       "annotate_messages parse lookup handles messages = Inr rest1" "ms = (k0, m1) # rest1"
    by (auto split: sum.splits)
  show ?case
  proof (cases "k = k0")
    case True
    then show ?thesis using Cons.prems(2) km a by simp
  next
    case False
    then show ?thesis using Cons.IH[OF a(2)] Cons.prems(2) km a(3) by simp
  qed
qed




lemma chat_messages_loop_keyed:
  "chat_messages_loop rows messages chats = Inr chats2 \<Longrightarrow>
   keyed (\<lambda>c. chat_rowid (c_row c)) chats \<Longrightarrow> keyed (\<lambda>c. chat_rowid (c_row c)) chats2"
proof (induction rows arbitrary: chats)
  case Nil
  then show ?case by simp
next
  case (Cons row rows)
  obtain c m where row: "row = (c, m)" by (cases row)
  from Cons.prems row obtain cv mv where
    cv: "map_of chats c = Some cv" and mv: "map_of messages m = Some mv"
    by (auto split: option.splits)
  have k: "chat_rowid (c_row cv) = c" using keyed_map_of[OF Cons.prems(2) cv] by simp
  from Cons.prems row cv mv
  have "chat_messages_loop rows messages
          (dict_set chats c (cv\<lparr>c_messages := Some (setdefault_list (c_messages cv) @ [m])\<rparr>))
        = Inr chats2"
    by simp
  from Cons.IH[OF this] show ?case
    using keyed_dict_set[OF Cons.prems(2), of "cv\<lparr>c_messages := Some (setdefault_list (c_messages cv) @ [m])\<rparr>" c] k
    by simp
qed

lemma has_message_step:
  "map_of chats c = Some cv \<Longrightarrow>
   has_message (dict_set chats c (cv\<lparr>c_messages := Some (setdefault_list (c_messages cv) @ [m])\<rparr>)) c' m'
   \<longleftrightarrow> has_message chats c' m' \<or> (c' = c \<and> m' = m)"
  by (auto simp: has_message_def map_of_dict_set setdefault_list_def split: option.splits)

lemma chat_messages_loop_has:
  "chat_messages_loop rows messages chats = Inr chats2 \<Longrightarrow>
   has_message chats2 c m \<longleftrightarrow> has_message chats c m \<or> (c, m) \<in> set rows"
proof (induction rows arbitrary: chats)
  case Nil
  then show ?case by simp
next
  case (Cons row rows)
  obtain c0 m0 where row: "row = (c0, m0)" by (cases row)
  from Cons.prems row obtain cv mv where
    cv: "map_of chats c0 = Some cv" and mv: "map_of messages m0 = Some mv"
    by (auto split: option.splits)
  from Cons.prems row cv mv
  have "chat_messages_loop rows messages
          (dict_set chats c0 (cv\<lparr>c_messages := Some (setdefault_list (c_messages cv) @ [m0])\<rparr>))
        = Inr chats2"
    by simp
  from Cons.IH[OF this] show ?case
    using has_message_step[OF cv] row by auto
qed




lemma message_attachments_loop_keeps:
  "message_attachments_loop rows attachments messages = Inr messages2 \<Longrightarrow>
   map_of messages k = Some mv \<Longrightarrow>
   \<exists>mv2. map_of messages2 k = Some mv2 \<and> m_row mv2 = m_row mv \<and> m_sender mv2 = m_sender mv"
proof (induction rows arbitrary: messages mv)
  case Nil
  then show ?case by simp
next
  case (Cons row rows)
  obtain m a where row: "row = (m, a)" by (cases row)
  from Cons.prems row obtain mv0 av where
    mv0: "map_of messages m = Some mv0" and av: "map_of attachments a = Some av"
    by (auto split: option.splits)
  let ?messages1 = "dict_set messages m (mv0\<lparr>m_attachments := Some (setdefault_list (m_attachments mv0) @ [av])\<rparr>)"
  from Cons.prems row mv0 av
  have loop: "message_attachments_loop rows attachments ?messages1 = Inr messages2" by simp
  obtain mv1 where mv1: "map_of ?messages1 k = Some mv1" "m_row mv1 = m_row mv" "m_sender mv1 = m_sender mv"
    using Cons.prems(2) mv0 by (cases "k = m") (auto simp: map_of_dict_set)
  from Cons.IH[OF loop mv1(1)] mv1 show ?case by auto
qed

section \<open>The messaging pipeline: results\<close>

lemma keys0:
  "fst ` set (chats0 db) = chat_rowid ` set (chat_table db)"
  "fst ` set (handles0 db) = handle_rowid ` set (handle_table db)"
  "fst ` set (messages0 db) = message_rowid ` set (message_table db)"
  "fst ` set (attachments0 db) = attachment_rowid ` set (attachment_table db)"
  by (simp_all add: keys_dict_by image_image)




lemma makedirs_fields:
  "makedirs d w = (r, w') \<Longrightarrow> outputs w' = outputs w \<and> contacts_lookup w' = contacts_lookup w"
  by (auto simp: makedirs_def split: if_splits)

lemma copy2_fields:
  "copy2 s d w = (r, w') \<Longrightarrow> outputs w' = outputs w \<and> contacts_lookup w' = contacts_lookup w"
  by (auto simp: copy2_def Let_def split: if_splits option.splits node.splits)

lemma make_temporary_copy_fields:
  "make_temporary_copy i s d w = (r, w') \<Longrightarrow>
     outputs w' = outputs w \<and> contacts_lookup w' = contacts_lookup w"
  by (auto simp: make_temporary_copy_def Let_def split: if_splits prod.splits sum.splits
           dest!: makedirs_fields copy2_fields)

lemma open_db_fields:
  "open_db f w = (r, w') \<Longrightarrow>
     outputs w' = outputs w \<and> contacts_lookup w' = contacts_lookup w"
  by (auto simp: open_db_def split: prod.splits sum.splits dest!: make_temporary_copy_fields)

lemma backup_messages_opened:
  assumes "IOSBackup_file backup ''HomeDomain'' ''Library/SMS/sms.db'' w = Inr f"
      and "open_db f w = (Inr dbp, w1)"
      and "contacts_lookup w \<noteq> []"
      and "fs w1 dbp = Some (File (SmsDb db))"
  shows "backup_messages parse backup w =
           (fst (messages_core parse (contacts_lookup w) db),
            w1\<lparr>outputs := outputs w @ snd (messages_core parse (contacts_lookup w) db)\<rparr>)"
proof -
  have l: "contacts_lookup w1 = contacts_lookup w" "outputs w1 = outputs w"
    using open_db_fields[OF assms(2)] by auto
  show ?thesis using assms l
    by (simp add: backup_messages_def split: prod.splits)
qed

lemma messages_core_keeps_message:
  assumes run: "messages_core parse lookup db = (Inr (), out)"
      and dist: "distinct (map message_rowid (message_table db))"
      and r: "r \<in> set (message_table db)"
      and nohandle: "message_handle_id r \<notin> handle_rowid ` set (handle_table db)"
      and joined: "(cid, message_rowid r) \<in> set (chat_message_join db)"
  shows "\<exists>full co ms m.
           (''messages/chats-full.json'', ChatsJson full) \<in> set out \<and> co \<in> set full \<and>
           chat_rowid (out_row co) = cid \<and> out_messages co = Some ms \<and> m \<in> set ms \<and>
           m_row m = r \<and> m_sender m = None"
proof -
  from run obtain handles1 chats1 where
    hl: "chat_handles_loop parse lookup (chat_handle_join db) (handles0 db) (chats0 db)
           = Inr (handles1, chats1)"
    by (auto simp: messages_core_def Let_def split: sum.splits)
  from run hl obtain messages1 where
    am: "annotate_messages parse lookup handles1 (messages0 db) = Inr messages1"
    by (auto simp: messages_core_def Let_def split: sum.splits)
  from run hl am obtain chats2 where
    cl: "chat_messages_loop (chat_message_join db) messages1 chats1 = Inr chats2"
    by (auto simp: messages_core_def Let_def split: sum.splits)
  from run hl am cl obtain messages2 where
    al: "message_attachments_loop (message_attachment_join db) (attachments0 db) messages1
           = Inr messages2"
    by (auto simp: messages_core_def Let_def split: sum.splits)
  from run hl am cl al have out:
    "(''messages/chats-full.json'',
      ChatsJson (map (chat_snapshot handles1 messages2) (map snd chats2))) \<in> set out"
    by (auto simp: messages_core_def Let_def)
  let ?m0 = "\<lparr>m_row = r, m_sender = None, m_attachments = None\<rparr>"
  have "distinct (map (\<lambda>m. message_rowid (m_row m))
           (map (\<lambda>r. \<lparr>m_row = r, m_sender = None, m_attachments = None\<rparr>) (message_table db)))"
    using dist by (simp add: comp_def)
  from map_of_dict_by[OF this, of ?m0] r
  have m0: "map_of (messages0 db) (message_rowid r) = Some ?m0" by auto
  have kh: "fst ` set handles1 = handle_rowid ` set (handle_table db)"
    using chat_handles_loop_ok[OF hl] by (simp add: keys0)
  have "annotate_message parse lookup handles1 ?m0 = Inr ?m0"
    using nohandle kh by (simp add: annotate_message_missing)
  with annotate_messages_map_of[OF am m0]
  have m1: "map_of messages1 (message_rowid r) = Some ?m0" by auto
  from message_attachments_loop_keeps[OF al m1] obtain m2 where
    m2: "map_of messages2 (message_rowid r) = Some m2" "m_row m2 = r" "m_sender m2 = None"
    by auto
  have "has_message chats2 cid (message_rowid r)"
    using chat_messages_loop_has[OF cl] joined by simp
  then obtain cv ids where
    cv: "map_of chats2 cid = Some cv" "c_messages cv = Some ids" "message_rowid r \<in> set ids"
    by (auto simp: has_message_def split: option.splits)
  have "keyed (\<lambda>c. chat_rowid (c_row c)) chats2"
    using chat_messages_loop_keyed[OF cl chat_handles_loop_keyed[OF hl keyed_dict_by]] .
  from keyed_map_of[OF this cv(1)] have ck: "chat_rowid (c_row cv) = cid" "cv \<in> snd ` set chats2"
    by auto
  let ?co = "chat_snapshot handles1 messages2 cv"
  have "?co \<in> set (map (chat_snapshot handles1 messages2) (map snd chats2))"
    using ck(2) by auto
  moreover have "chat_rowid (out_row ?co) = cid" using ck(1) by (simp add: chat_snapshot_def)
  moreover have "out_messages ?co = Some (deref messages2 ids)"
    using cv(2) by (simp add: chat_snapshot_def)
  moreover have "m2 \<in> set (deref messages2 ids)"
    using cv(3) m2(1) by (auto simp: set_deref)
  ultimately show ?thesis using out m2 by blast
qed

lemma backup_messages_empty_lookup:
  assumes "contacts_lookup w = []"
      and "IOSBackup_file backup ''HomeDomain'' ''Library/SMS/sms.db'' w = Inr f"
      and "open_db f w = (Inr dbp, w1)"
  shows "backup_messages parse backup w = (Inl ContactsNotDefinedException, w1)"
proof -
  have "contacts_lookup w1 = []" using open_db_fields[OF assms(3)] assms(1) by simp
  then show ?thesis using assms by (simp add: backup_messages_def)
qed

lemma open_db_example:
  "open_db sms_file (ex_world manifest lookup db) =
     (Inr ''/tmp/u1/HomeDomain/Library/SMS/sms.db'', ex_world manifest lookup db)"
  by (simp add: open_db_def make_temporary_copy_def tmp_path_of_def path_exists_def
        sms_file_def ex_backup_def py_str_def ex_world_def sqlite3_connect_def Let_def)

lemma sms_db_example:
  "fs (ex_world manifest lookup db) ''/tmp/u1/HomeDomain/Library/SMS/sms.db'' =
     Some (File (SmsDb db))"
  by (simp add: ex_world_def)

text \<open>
  C8, as amended. When \<^verbatim>\<open>CONTACTS_LOOKUP\<close> is empty and the messaging database has been
  found in the manifest and opened, \<^verbatim>\<open>backup_messages\<close> raises
  \<^verbatim>\<open>ContactsNotDefinedException\<close> before it has written any file, and the dispatch loop
  does not catch the exception: the run ends with it.
\<close>

theorem contacts_not_loaded:
  assumes "contacts_lookup w = []"
      and "IOSBackup_file backup ''HomeDomain'' ''Library/SMS/sms.db'' w = Inr f"
      and "open_db f w = (Inr dbp, w1)"
  shows "backup_messages parse backup w = (Inl ContactsNotDefinedException, w1) \<and>
         outputs w1 = outputs w \<and>
         run_backup_functions (backup_messages parse # rest) backup w =
           (Inl ContactsNotDefinedException, w1)"
  using backup_messages_empty_lookup[OF assms, of parse] open_db_fields[OF assms(3)]
  by simp

theorem contacts_not_loaded_witness:
  "backup_messages example_parser ex_backup (ex_world [sms_row] [] ex_sms) =
     (Inl ContactsNotDefinedException, ex_world [sms_row] [] ex_sms) \<and>
   run_backup_functions [backup_messages example_parser] ex_backup
     (ex_world [sms_row] [] ex_sms) =
     (Inl ContactsNotDefinedException, ex_world [sms_row] [] ex_sms)"
proof -
  have l: "contacts_lookup (ex_world [sms_row] [] ex_sms) = []" by (simp add: ex_world_def)
  from contacts_not_loaded[OF l sms_file_example open_db_example, of example_parser "[]"]
  show ?thesis by simp
qed

text \<open>
  The claim as stated fails: the messaging database is looked up before the table is
  tested, so with an empty table and a manifest without the messaging database the
  pipeline raises \<^verbatim>\<open>FileNotFoundException\<close>.
\<close>

theorem contacts_check_after_file_lookup:
  "contacts_lookup (ex_world [] [] ex_sms) = [] \<and>
   backup_messages example_parser ex_backup (ex_world [] [] ex_sms) =
     (Inl FileNotFoundException, ex_world [] [] ex_sms)"
  by (simp add: backup_messages_def IOSBackup_file_def manifest_rows_example
        select_fileID_def) (simp add: ex_world_def)

text \<open>
  C1, as amended. In a run of the messaging pipeline that completes, a message whose
  handle id is the row id of no handle is given no sender and is kept: under every chat
  that \<^verbatim>\<open>chat_message_join\<close> joins it to, \<^verbatim>\<open>chats-full.json\<close> lists it without
  \<^verbatim>\<open>sender_uuid\<close> and \<^verbatim>\<open>sender_name\<close>. (Row ids are distinct, as in SQLite.)
\<close>

theorem message_without_handle_is_kept:
  assumes "IOSBackup_file backup ''HomeDomain'' ''Library/SMS/sms.db'' w = Inr f"
      and "open_db f w = (Inr dbp, w1)"
      and "fs w1 dbp = Some (File (SmsDb db))"
      and "backup_messages parse backup w = (Inr (), w2)"
      and "distinct (map message_rowid (message_table db))"
      and "r \<in> set (message_table db)"
      and "message_handle_id r \<notin> handle_rowid ` set (handle_table db)"
      and "(cid, message_rowid r) \<in> set (chat_message_join db)"
  shows "\<exists>full co ms m.
           (''messages/chats-full.json'', ChatsJson full) \<in> set (outputs w2) \<and>
           co \<in> set full \<and> chat_rowid (out_row co) = cid \<and>
           out_messages co = Some ms \<and> m \<in> set ms \<and> m_row m = r \<and> m_sender m = None"
proof -
  have ne: "contacts_lookup w \<noteq> []"
  proof
    assume "contacts_lookup w = []"
    from backup_messages_empty_lookup[OF this assms(1,2), of parse] assms(4)
    show False by simp
  qed
  note opened = backup_messages_opened[OF assms(1,2) ne assms(3), of parse]
  obtain out where core: "messages_core parse (contacts_lookup w) db = (Inr (), out)"
    using opened assms(4) by (cases "messages_core parse (contacts_lookup w) db") auto
  have "outputs w2 = outputs w @ out" using opened assms(4) core by auto
  with messages_core_keeps_message[OF core assms(5-8)] show ?thesis by auto
qed

lemma dict_by_one: "dict_by key [r] = [(key r, r)]"
  by (simp add: dict_by_def)

lemma messages_core_example: "messages_core parse lookup ex_sms = (Inr (), ex_outputs)"
  by (simp add: messages_core_def ex_sms_def dict_by_one dict_by_def annotate_message_def
        ex_message_def setdefault_list_def chat_snapshot_def deref_def
        message_data_def str_int_def str_nat_example Let_def ex_outputs_def)

lemma ex_lookup_nonempty: "contacts_lookup (ex_world manifest ex_lookup db) \<noteq> []"
  by (simp add: ex_world_def ex_lookup_def)

lemma backup_messages_example:
  "backup_messages parse ex_backup (ex_world [sms_row] ex_lookup db) =
     (fst (messages_core parse ex_lookup db),
      (ex_world [sms_row] ex_lookup db)
        \<lparr>outputs := snd (messages_core parse ex_lookup db)\<rparr>)"
  using backup_messages_opened[OF sms_file_example open_db_example ex_lookup_nonempty
          sms_db_example, of parse]
  by (simp add: ex_world_def)

theorem message_without_handle_is_kept_witness:
  "\<exists>full co ms m.
     (''messages/chats-full.json'', ChatsJson full) \<in>
       set (outputs (snd (backup_messages example_parser ex_backup
                            (ex_world [sms_row] ex_lookup ex_sms)))) \<and>
     co \<in> set full \<and> chat_rowid (out_row co) = 1 \<and>
     out_messages co = Some ms \<and> m \<in> set ms \<and> m_row m = ex_message \<and> m_sender m = None"
proof -
  let ?w = "ex_world [sms_row] ex_lookup ex_sms"
  have run: "backup_messages example_parser ex_backup ?w =
               (Inr (), snd (backup_messages example_parser ex_backup ?w))"
    by (simp add: backup_messages_example messages_core_example)
  have d: "distinct (map message_rowid (message_table ex_sms))" by (simp add: ex_sms_def)
  have r: "ex_message \<in> set (message_table ex_sms)" by (simp add: ex_sms_def)
  have h: "message_handle_id ex_message \<notin> handle_rowid ` set (handle_table ex_sms)"
    by (simp add: ex_sms_def)
  have j: "(1, message_rowid ex_message) \<in> set (chat_message_join ex_sms)"
    by (simp add: ex_sms_def ex_message_def)
  from message_without_handle_is_kept[OF sms_file_example open_db_example sms_db_example
         run d r h j]
  show ?thesis .
qed

text \<open>
  The claim as stated fails: the message of handle id 0, in a database without handles,
  is written under chat 1 in \<^verbatim>\<open>chats-full.json\<close> and in the chat's own file, without
  sender.
\<close>

theorem message_without_handle_not_dropped:
  "message_handle_id ex_message \<notin> handle_rowid ` set (handle_table ex_sms) \<and>
   fst (backup_messages example_parser ex_backup (ex_world [sms_row] ex_lookup ex_sms)) =
     Inr () \<and>
   outputs (snd (backup_messages example_parser ex_backup
                   (ex_world [sms_row] ex_lookup ex_sms))) =
     [(''messages/chats.json'',
       ChatsJson [\<lparr>out_row = \<lparr>chat_rowid = 1, chat_guid = ''c1''\<rparr>, out_members = None,
                   out_messages = None\<rparr>]),
      (''messages/chats-full.json'',
       ChatsJson [\<lparr>out_row = \<lparr>chat_rowid = 1, chat_guid = ''c1''\<rparr>, out_members = None,
                   out_messages =
                     Some [\<lparr>m_row = ex_message, m_sender = None, m_attachments = None\<rparr>]\<rparr>]),
      (''messages/message-data/1.json'',
       MessagesJson [\<lparr>m_row = ex_message, m_sender = None, m_attachments = None\<rparr>])]"
  by (simp add: backup_messages_example messages_core_example ex_outputs_def)
     (simp add: ex_sms_def)






section \<open>Construction of a backup and the scan loop\<close>

lemma IOSBackup_init_absent:
  "fs w (os_path_join path [''Info.plist'']) = None \<Longrightarrow>
   IOSBackup_init path w = (Inl InvalidBackupException, w)"
  by (simp add: IOSBackup_init_def path_exists_def)

text \<open>
  C3, as amended. When the candidate directory has no \<^verbatim>\<open>Info.plist\<close>, the construction
  of the backup raises \<^verbatim>\<open>InvalidBackupException\<close> and changes nothing, and the scan loop
  goes on with the remaining candidates as if this one had not been listed.
\<close>

theorem absent_descriptor_skipped:
  assumes "fs w (os_path_join (os_path_join backup_root [backup_id]) [''Info.plist'']) = None"
  shows "IOSBackup_init (os_path_join backup_root [backup_id]) w =
           (Inl InvalidBackupException, w) \<and>
         scan_ids fns backup_root (backup_id # rest) w = scan_ids fns backup_root rest w"
  using IOSBackup_init_absent[OF assms] by simp

lemma join_example:
  "os_path_join ''/r'' [''X''] = ''/r/X''"
  "os_path_join ''/r/X'' [''Info.plist''] = ''/r/X/Info.plist''"
  "os_path_join ''/r'' [''Y''] = ''/r/Y''"
  "os_path_join ''/r/Y'' [''Info.plist''] = ''/r/Y/Info.plist''"
  "os_path_join ''/r/Y'' [''Manifest.db''] = ''/r/Y/Manifest.db''"
  by (simp_all add: os_path_join_def join_step_def startswith_sep_def endswith_sep_def sep_def)

lemma IOSBackup_init_example:
  "IOSBackup_init ''/r/Y'' scan_world = (Inr y_backup, scan_world)"
  by (simp add: IOSBackup_init_def join_example path_exists_def scan_world_def
        info_getitem_def py_str_def make_temporary_copy_def tmp_path_of_def
        sqlite3_connect_def y_backup_def Let_def)

lemma backup_contacts_example:
  "backup_contacts example_parser y_backup scan_world =
     (Inr (),
      scan_world\<lparr>outputs :=
                   [(''messages/contacts.json'',
                     PeopleJson
                       [\<lparr>p_row = ex_person, p_display_name = ''Ann Lee'',
                         p_contacts = Some [(''phone'', [''+15551234'']),
                                            (''email'', [''ann@example.org''])]\<rparr>])],
                 contacts_lookup :=
                   [(''+15551234'', (''p1'', ''Ann Lee'')),
                    (''ann@example.org'', (''p1'', ''Ann Lee''))]\<rparr>)"
  by (simp add: backup_contacts_def IOSBackup_file_def manifest_rows_def y_backup_def
        scan_world_def select_fileID_def sms_row_def ab_row_def IOSBackupFile_init_def
        os_path_join_def join_step_def startswith_sep_def endswith_sep_def sep_def
        open_db_def make_temporary_copy_def tmp_path_of_def path_exists_def py_str_def
        sqlite3_connect_def Let_def ex_ab_def dict_by_def make_person_def
        display_name_of_def name_part_def ex_person_def classify_value_def
        classify_contact_def isdigit_def parse_phone_number_def example_parser_def
        str_nat_example add_contact_def setdefault_list_def)

lemma backup_messages_scan_example:
  "backup_messages parse y_backup (scan_world\<lparr>outputs := out, contacts_lookup := l # lk\<rparr>) =
     (Inr (), scan_world\<lparr>outputs := out @ ex_outputs, contacts_lookup := l # lk\<rparr>)"
  by (simp add: backup_messages_def IOSBackup_file_def manifest_rows_def y_backup_def
        scan_world_def select_fileID_def sms_row_def ab_row_def IOSBackupFile_init_def
        os_path_join_def join_step_def startswith_sep_def endswith_sep_def sep_def
        open_db_def make_temporary_copy_def tmp_path_of_def path_exists_def py_str_def
        sqlite3_connect_def Let_def messages_core_example)

lemma scan_ids_example:
  "fst (scan_ids [backup_contacts example_parser, backup_messages example_parser] ''/r''
          [''Y''] scan_world) = Inr () \<and>
   map fst (outputs (snd (scan_ids [backup_contacts example_parser,
                                    backup_messages example_parser] ''/r''
                            [''Y''] scan_world))) =
     [''messages/contacts.json'', ''messages/chats.json'', ''messages/chats-full.json'',
      ''messages/message-data/1.json'']"
  by (simp add: join_example IOSBackup_init_example backup_contacts_example
        backup_messages_scan_example ex_outputs_def)

theorem absent_descriptor_skipped_witness:
  "IOSBackup_init ''/r/X'' scan_world = (Inl InvalidBackupException, scan_world) \<and>
   fst (scan_ids [backup_contacts example_parser, backup_messages example_parser] ''/r''
          [''X'', ''Y''] scan_world) = Inr () \<and>
   map fst (outputs (snd (scan_ids [backup_contacts example_parser,
                                    backup_messages example_parser] ''/r''
                            [''X'', ''Y''] scan_world))) =
     [''messages/contacts.json'', ''messages/chats.json'', ''messages/chats-full.json'',
      ''messages/message-data/1.json'']"
proof -
  have x: "fs scan_world (os_path_join (os_path_join ''/r'' [''X'']) [''Info.plist'']) = None"
    by (simp add: join_example scan_world_def)
  from absent_descriptor_skipped[OF x,
         of "[backup_contacts example_parser, backup_messages example_parser]" "[''Y'']"]
       scan_ids_example
  show ?thesis by (simp add: join_example)
qed

text \<open>
  The claim as stated fails: an \<^verbatim>\<open>Info.plist\<close> that is present and is not a property
  list makes the construction raise the parser's exception, which the scan loop does not
  catch; the run ends at this candidate and the next one is not looked at.
\<close>

theorem unparseable_descriptor_aborts_scan:
  "IOSBackup_init ''/r/X'' junk_world = (Inl InvalidFileException, junk_world) \<and>
   scan_ids [backup_contacts example_parser, backup_messages example_parser] ''/r''
     [''X'', ''Y''] junk_world = (Inl InvalidFileException, junk_world)"
proof -
  have "IOSBackup_init ''/r/X'' junk_world = (Inl InvalidFileException, junk_world)"
    by (simp add: IOSBackup_init_def join_example path_exists_def junk_world_def)
  then show ?thesis by (simp add: join_example)
qed

end
